theory Spec2Isabelle
  imports Complex_Main "HOL-Library.Word"
begin

section \<open>JavaScript values the export-to-AR code handles\<close>

text \<open>
  The four source files are successive versions of
  \<^verbatim>\<open>src/extensions/geo-export/ui.tsx\<close>: the direct-dispatch version
  (\<^verbatim>\<open>ui.tsx\<close>), the proxy version (\<^verbatim>\<open>part_000\<close>, and again the
  second file of \<^verbatim>\<open>part_002\<close>), the token-proxy version (\<^verbatim>\<open>part_001\<close>)
  and the multipart version (first file of \<^verbatim>\<open>part_002\<close>).
\<close>

text \<open>A parsed JSON document, the value of \<^verbatim>\<open>await response.json()\<close>.\<close>

datatype json =
    JNull
  | JBool bool
  | JNum rat
  | JStr string
  | JArr "json list"
  | JObj "(string \<times> json) list"

text \<open>
  What a handler can see thrown or rejected: a rejection that comes from a collaborator
  (exporter, network, JSON parser, QR library), a \<^verbatim>\<open>TypeError\<close> of the engine,
  the progress event a failing \<^verbatim>\<open>FileReader\<close> hands to \<^verbatim>\<open>onerror\<close>,
  \<^verbatim>\<open>new Error(v)\<close> thrown by the code itself, and
  \<^verbatim>\<open>new Error(`Upload failed with status ${response.status}`)\<close>.
\<close>

datatype error =
    HostError string
  | TypeError string
  | ProgressEvent string
  | JsError json
  | UploadStatusError nat

text \<open>A promise is pending until the first call of \<^verbatim>\<open>resolve\<close> or \<^verbatim>\<open>reject\<close>;
  later calls are ignored.\<close>

datatype 'a promise = Pending | Fulfilled 'a | Rejected error

definition resolve :: "'a promise \<Rightarrow> 'a \<Rightarrow> 'a promise" where
  "resolve p v = (case p of Pending \<Rightarrow> Fulfilled v | Fulfilled w \<Rightarrow> Fulfilled w | Rejected e \<Rightarrow> Rejected e)"

definition reject :: "'a promise \<Rightarrow> error \<Rightarrow> 'a promise" where
  "reject p e = (case p of Pending \<Rightarrow> Rejected e | Fulfilled w \<Rightarrow> Fulfilled w | Rejected e' \<Rightarrow> Rejected e')"

subsection \<open>String operations\<close>

text \<open>\<^verbatim>\<open>s.split(c)\<close> for a one-character separator: never the empty array.\<close>

fun split_on :: "char \<Rightarrow> string \<Rightarrow> string list" where
  "split_on c [] = [[]]"
| "split_on c (x # xs) =
     (if x = c then [] # split_on c xs
      else (case split_on c xs of [] \<Rightarrow> [[x]] | s # ss \<Rightarrow> (x # s) # ss))"

text \<open>\<^verbatim>\<open>xs[i]\<close>: \<^verbatim>\<open>undefined\<close> (here \<open>None\<close>) out of range.\<close>

definition at_index :: "'a list \<Rightarrow> nat \<Rightarrow> 'a option" where
  "at_index xs i = (if i < length xs then Some (xs ! i) else None)"

text \<open>\<^verbatim>\<open>s.substring(i, j)\<close> and \<^verbatim>\<open>s.slice(i, j)\<close> for non-negative arguments:
  both clamp to the length; \<^verbatim>\<open>substring\<close> swaps its arguments when \<open>i > j\<close>.\<close>

definition substring :: "string \<Rightarrow> nat \<Rightarrow> nat \<Rightarrow> string" where
  "substring s i j =
     (let a = min i (length s); b = min j (length s)
      in take (max a b - min a b) (drop (min a b) s))"

definition slice :: "string \<Rightarrow> nat \<Rightarrow> nat \<Rightarrow> string" where
  "slice s i j =
     (let a = min i (length s); b = min j (length s)
      in take (b - a) (drop a s))"

section \<open>Blobs and the FileReader\<close>

record blob =
  btype :: string
  bytes :: "8 word list"

text \<open>The base64 alphabet and encoding of RFC 4648, which \<^verbatim>\<open>readAsDataURL\<close> applies.\<close>

definition b64_alphabet :: string where
  "b64_alphabet = ''ABCDEFGHIJKLMNOPQRSTUVWXYZabcdefghijklmnopqrstuvwxyz0123456789+/''"

definition b64_digit :: "nat \<Rightarrow> char" where
  "b64_digit n = b64_alphabet ! (n mod 64)"

fun base64 :: "8 word list \<Rightarrow> string" where
  "base64 [] = []"
| "base64 [a] =
     [b64_digit (unat a div 4), b64_digit ((unat a mod 4) * 16), CHR ''='', CHR ''='']"
| "base64 [a, b] =
     [b64_digit (unat a div 4), b64_digit ((unat a mod 4) * 16 + unat b div 16),
      b64_digit ((unat b mod 16) * 4), CHR ''='']"
| "base64 (a # b # c # rest) =
     [b64_digit (unat a div 4), b64_digit ((unat a mod 4) * 16 + unat b div 16),
      b64_digit ((unat b mod 16) * 4 + unat c div 64), b64_digit (unat c mod 64)]
     @ base64 rest"

text \<open>The data URL of a blob (RFC 2397): the header names the media type, the payload
  follows the comma.\<close>

definition dataURL_header :: "blob \<Rightarrow> string" where
  "dataURL_header b = ''data:'' @ btype b @ '';base64''"

definition dataURL :: "blob \<Rightarrow> string" where
  "dataURL b = dataURL_header b @ '','' @ base64 (bytes b)"

text \<open>
  The events a \<^verbatim>\<open>FileReader\<close> dispatches, each paired with the value of
  \<^verbatim>\<open>reader.result\<close> at that moment (\<open>None\<close> is \<^verbatim>\<open>null\<close>).
\<close>

datatype reader_event = EvLoad | EvError string | EvAbort | EvLoadend

type_synonym reader_run = "(reader_event \<times> string option) list"

text \<open>Whether a read succeeds is the platform's decision.\<close>

datatype read_status = ReadOk | ReadFails string

text \<open>
  \<^verbatim>\<open>reader.readAsDataURL(blob)\<close> (File API): a successful read sets the result and
  fires \<^verbatim>\<open>load\<close>, then \<^verbatim>\<open>loadend\<close>; a failing one leaves the result
  \<^verbatim>\<open>null\<close> and fires \<^verbatim>\<open>error\<close>, then \<^verbatim>\<open>loadend\<close>.
\<close>

definition readAsDataURL :: "read_status \<Rightarrow> blob \<Rightarrow> reader_run" where
  "readAsDataURL st b =
     (case st of
        ReadOk \<Rightarrow> [(EvLoad, Some (dataURL b)), (EvLoadend, Some (dataURL b))]
      | ReadFails n \<Rightarrow> [(EvError n, None), (EvLoadend, None)])"

subsection \<open>blobToBase64\<close>

text \<open>
  \<^verbatim>\<open>ui.tsx\<close>, lines 179-186:
  \<^verbatim>\<open>reader.onload = () => resolve((reader.result as string).split(',')[1]);\<close>
  \<^verbatim>\<open>reader.onerror = reject;\<close>
  A \<^verbatim>\<open>null\<close> result makes the \<^verbatim>\<open>onload\<close> handler throw inside the event
  dispatch, which settles nothing.
\<close>

fun onload_handlers :: "string option promise \<Rightarrow> reader_event \<times> string option \<Rightarrow> string option promise" where
  "onload_handlers p (EvLoad, Some s) = resolve p (at_index (split_on CHR '','' s) 1)"
| "onload_handlers p (EvLoad, None) = p"
| "onload_handlers p (EvError n, r) = reject p (ProgressEvent n)"
| "onload_handlers p (EvAbort, r) = p"
| "onload_handlers p (EvLoadend, r) = p"

definition blobToBase64_ui_run :: "reader_run \<Rightarrow> string option promise" where
  "blobToBase64_ui_run run = foldl onload_handlers Pending run"

definition blobToBase64_ui :: "read_status \<Rightarrow> blob \<Rightarrow> string option promise" where
  "blobToBase64_ui st b = blobToBase64_ui_run (readAsDataURL st b)"

text \<open>
  \<^verbatim>\<open>part_000\<close> lines 200-211, \<^verbatim>\<open>part_001\<close> lines 174-185, \<^verbatim>\<open>part_002\<close>
  lines 362-372 (the same text three times):
  \<^verbatim>\<open>const base64data = reader.result?.toString().split(',')[1];\<close>
  \<^verbatim>\<open>resolve(base64data || '');\<close> in \<^verbatim>\<open>onloadend\<close>, and
  \<^verbatim>\<open>reader.onerror = reject;\<close>
\<close>

definition base64data :: "string option \<Rightarrow> string option" where
  "base64data r = (case r of None \<Rightarrow> None | Some s \<Rightarrow> at_index (split_on CHR '','' s) 1)"

text \<open>\<^verbatim>\<open>v || ''\<close> on a string or \<^verbatim>\<open>undefined\<close>.\<close>

definition or_empty :: "string option \<Rightarrow> string" where
  "or_empty v = (case v of None \<Rightarrow> [] | Some s \<Rightarrow> (if s = [] then [] else s))"

fun onloadend_handlers :: "string promise \<Rightarrow> reader_event \<times> string option \<Rightarrow> string promise" where
  "onloadend_handlers p (EvLoadend, r) = resolve p (or_empty (base64data r))"
| "onloadend_handlers p (EvError n, r) = reject p (ProgressEvent n)"
| "onloadend_handlers p (EvLoad, r) = p"
| "onloadend_handlers p (EvAbort, r) = p"

definition blobToBase64_proxy_run :: "reader_run \<Rightarrow> string promise" where
  "blobToBase64_proxy_run run = foldl onloadend_handlers Pending run"

definition blobToBase64_proxy :: "read_status \<Rightarrow> blob \<Rightarrow> string promise" where
  "blobToBase64_proxy st b = blobToBase64_proxy_run (readAsDataURL st b)"

section \<open>Identity resolution\<close>

text \<open>\<^verbatim>\<open>new Date().toISOString().replace(/[:.-]/g, '')\<close>, from the ISO text of the clock.\<close>

definition timestamp :: "string \<Rightarrow> string" where
  "timestamp isoText = filter (\<lambda>c. c \<noteq> CHR '':'' \<and> c \<noteq> CHR ''.'' \<and> c \<noteq> CHR ''-'') isoText"

text \<open>
  \<^verbatim>\<open>Math.random().toString(36).substring(2, 8)\<close> (\<^verbatim>\<open>ui.tsx\<close> line 107,
  \<^verbatim>\<open>part_001\<close> line 130, \<^verbatim>\<open>part_002\<close> line 104) and
  \<^verbatim>\<open>Math.random().toString(36).slice(2, 8)\<close> (\<^verbatim>\<open>part_000\<close> line 139).
  The argument is the base-36 text \<^verbatim>\<open>Math.random().toString(36)\<close> of the number
  drawn: \<^verbatim>\<open>"0.i"\<close> for 0.5, \<^verbatim>\<open>"0"\<close> for 0, eleven or so digits after
  \<^verbatim>\<open>"0."\<close> for most numbers.
\<close>

definition randomId :: "string \<Rightarrow> string" where
  "randomId rnd36 = substring rnd36 2 8"

definition randomString :: "string \<Rightarrow> string" where
  "randomString rnd36 = slice rnd36 2 8"

text \<open>\<^verbatim>\<open>`${pdbId}-${timestamp}-${randomId}.glb`\<close> and its \<^verbatim>\<open>.usdz\<close> twin.\<close>

definition glbFilename :: "string \<Rightarrow> string \<Rightarrow> string \<Rightarrow> string" where
  "glbFilename pdbId ts rid = pdbId @ ''-'' @ ts @ ''-'' @ rid @ ''.glb''"

definition usdzFilename :: "string \<Rightarrow> string \<Rightarrow> string \<Rightarrow> string" where
  "usdzFilename pdbId ts rid = pdbId @ ''-'' @ ts @ ''-'' @ rid @ ''.usdz''"

text \<open>A loaded structure, as far as the code looks: the value at the end of the optional
  chain down to \<^verbatim>\<open>entryId\<close> (\<open>None\<close> when a link of the chain is missing).\<close>

record structure_ref =
  entryId :: "string option"

text \<open>\<^verbatim>\<open>v || d\<close> on a string or \<^verbatim>\<open>undefined\<close>: the empty string is falsy.\<close>

definition or_default :: "string option \<Rightarrow> string \<Rightarrow> string" where
  "or_default v d = (case v of None \<Rightarrow> d | Some s \<Rightarrow> (if s = [] then d else s))"

text \<open>\<^verbatim>\<open>structures[0]?.cell.obj?.data?.model?.entryId || 'Unknown'\<close>
  (\<^verbatim>\<open>ui.tsx\<close> line 103, \<^verbatim>\<open>part_001\<close> line 126, \<^verbatim>\<open>part_002\<close> line 100).\<close>

definition pdbId_ui :: "structure_ref list \<Rightarrow> string" where
  "pdbId_ui structs =
     (case structs of [] \<Rightarrow> ''Unknown'' | s # rest \<Rightarrow> or_default (entryId s) ''Unknown'')"

text \<open>\<^verbatim>\<open>structures[0].cell.obj?.data.models[0]?.entryId || 'unknown'\<close>
  (\<^verbatim>\<open>part_000\<close> line 137, \<^verbatim>\<open>part_002\<close> line 304), behind the length check.\<close>

definition pdbId_proxy :: "structure_ref \<Rightarrow> string" where
  "pdbId_proxy s = or_default (entryId s) ''unknown''"

section \<open>Effects\<close>

text \<open>The parts of a \<^verbatim>\<open>fetch\<close> request.\<close>

datatype header_value = Lit string | Interp string "json option"

datatype form_value = FormText string | FormFile "8 word list" string string

datatype body = NoBody | JsonBody json | FormBody "(string \<times> form_value) list"

record request =
  url :: string
  httpMethod :: string
  headers :: "(string \<times> header_value) list"
  payload :: body

record response =
  ok :: bool
  status :: nat
  json_body :: "json promise"

record export_data =
  data_blob :: blob
  data_filename :: string

datatype task = RevokeObjectURL string | DispatchClick

text \<open>What a handler does to the world, in order. Console messages keep their text
  without the pictographs and without the values printed after it.\<close>

datatype event =
    SetState bool
  | ExportGeometry
  | GlbExport
  | UsdzExport
  | ReadBlob blob
  | ConsoleLog string
  | ConsoleError error
  | Alert string
  | Fetch request
  | QRCodeToDataURL "json option"
  | AppendPopup "json option" "json option"
  | WindowOpen "json option"
  | Download blob string
  | CreateObjectURL blob string
  | SetTimeout task nat

text \<open>What the collaborators answer during one invocation of a handler.\<close>

record env =
  structures :: "structure_ref list"
  isoNow :: string
  random36 :: string
  exportGeometry :: "export_data promise"
  glbExport :: "blob promise"
  usdzExport :: "blob promise"
  readStatus :: "nat \<Rightarrow> read_status"
  githubToken :: "string option"
  tokenResponse :: "response promise"
  uploadResponse :: "response promise"
  qrToDataURL :: "json option \<Rightarrow> string promise"
  objectURL :: string

text \<open>A block of an async function either completes with a value, throws, or waits
  forever on a promise that never settles; in each case it has done some effects.\<close>

datatype 'a outcome = Val 'a | Throw error | Hang

type_synonym 'a comp = "'a outcome \<times> event list"

definition ret :: "'a \<Rightarrow> 'a comp" where
  "ret a = (Val a, [])"

definition emit :: "event \<Rightarrow> unit comp" where
  "emit ev = (Val (), [ev])"

definition throw :: "error \<Rightarrow> 'a comp" where
  "throw e = (Throw e, [])"

definition await :: "'a promise \<Rightarrow> 'a comp" where
  "await p = (case p of Pending \<Rightarrow> (Hang, []) | Fulfilled v \<Rightarrow> (Val v, []) | Rejected e \<Rightarrow> (Throw e, []))"

definition andThen :: "'a comp \<Rightarrow> ('a \<Rightarrow> 'b comp) \<Rightarrow> 'b comp" where
  "andThen m f =
     (case m of
        (Val a, t) \<Rightarrow> (case f a of (r, t') \<Rightarrow> (r, t @ t'))
      | (Throw e, t) \<Rightarrow> (Throw e, t)
      | (Hang, t) \<Rightarrow> (Hang, t))"

text \<open>A call of a collaborator and the wait for its promise.\<close>

definition call :: "event \<Rightarrow> 'a promise \<Rightarrow> 'a comp" where
  "call ev p = andThen (emit ev) (\<lambda>u. await p)"

text \<open>\<^verbatim>\<open>try { body } catch (e) { handler } finally { fin }\<close>: a body that waits forever
  reaches neither the handler nor the \<^verbatim>\<open>finally\<close> block.\<close>

definition try_catch_finally :: "unit comp \<Rightarrow> (error \<Rightarrow> unit comp) \<Rightarrow> unit comp \<Rightarrow> unit comp" where
  "try_catch_finally body handler fin =
     (case body of
        (Val a, t) \<Rightarrow> andThen (Val a, t) (\<lambda>u. fin)
      | (Throw e, t) \<Rightarrow> andThen (andThen (Val (), t) (\<lambda>u. handler e)) (\<lambda>u. fin)
      | (Hang, t) \<Rightarrow> (Hang, t))"

subsection \<open>Reading a parsed JSON document\<close>

text \<open>\<^verbatim>\<open>v.k\<close> for the keys the code reads (\<^verbatim>\<open>success\<close>, \<^verbatim>\<open>error\<close>,
  \<^verbatim>\<open>arLink\<close>, \<^verbatim>\<open>qrCodeUrl\<close>, \<^verbatim>\<open>token\<close>): a \<^verbatim>\<open>TypeError\<close> on
  \<^verbatim>\<open>null\<close>, the last value stored under the key in an object, \<^verbatim>\<open>undefined\<close>
  otherwise.\<close>

definition jsonField :: "json \<Rightarrow> string \<Rightarrow> json option" where
  "jsonField v k = (case v of JObj kvs \<Rightarrow> map_of (rev kvs) k | _ \<Rightarrow> None)"

definition getProp :: "json \<Rightarrow> string \<Rightarrow> json option comp" where
  "getProp v k = (case v of JNull \<Rightarrow> throw (TypeError k) | _ \<Rightarrow> ret (jsonField v k))"

definition truthy :: "json option \<Rightarrow> bool" where
  "truthy v =
     (case v of
        None \<Rightarrow> False
      | Some JNull \<Rightarrow> False
      | Some (JBool b) \<Rightarrow> b
      | Some (JNum n) \<Rightarrow> n \<noteq> 0
      | Some (JStr s) \<Rightarrow> s \<noteq> []
      | Some (JArr xs) \<Rightarrow> True
      | Some (JObj kvs) \<Rightarrow> True)"

text \<open>\<^verbatim>\<open>v || d\<close> on JSON values.\<close>

definition or_json :: "json option \<Rightarrow> json \<Rightarrow> json" where
  "or_json v d = (case v of None \<Rightarrow> d | Some j \<Rightarrow> (if truthy (Some j) then j else d))"


text \<open>\<^verbatim>\<open>JSON.stringify\<close> of an object literal: a property whose value is
  \<^verbatim>\<open>undefined\<close> is left out.\<close>

definition stringify_obj :: "(string \<times> json option) list \<Rightarrow> json" where
  "stringify_obj kvs = JObj (concat (map (\<lambda>(k, v). case v of None \<Rightarrow> [] | Some j \<Rightarrow> [(k, j)]) kvs))"

section \<open>The handlers\<close>

subsection \<open>Direct dispatch (\<^verbatim>\<open>ui.tsx\<close>)\<close>

definition GITHUB_API_URL :: string where
  "GITHUB_API_URL = ''https://api.github.com/repos/gaddb/protein-ar-viewer/dispatches''"

definition modelUrl :: "string \<Rightarrow> string \<Rightarrow> string" where
  "modelUrl glbName usdzName =
     ''https://gaddb.github.io/protein-ar-viewer/model.html?glb='' @ glbName @ ''&usdz='' @ usdzName"

text \<open>\<^verbatim>\<open>v.substring(0, 100)\<close> on what \<^verbatim>\<open>blobToBase64\<close> resolved with: a
  \<^verbatim>\<open>TypeError\<close> on \<^verbatim>\<open>undefined\<close>.\<close>

definition first100 :: "string option \<Rightarrow> string comp" where
  "first100 v = (case v of None \<Rightarrow> throw (TypeError ''substring'') | Some s \<Rightarrow> ret (substring s 0 100))"

definition dispatchRequest :: "string option \<Rightarrow> string \<Rightarrow> string option \<Rightarrow> string option \<Rightarrow> request" where
  "dispatchRequest tok pdbId glbBase64 usdzBase64 =
     \<lparr>url = GITHUB_API_URL, httpMethod = ''POST'',
      headers = [(''Accept'', Lit ''application/vnd.github.everest-preview+json''),
                 (''Content-Type'', Lit ''application/json''),
                 (''Authorization'', Interp ''token '' (map_option JStr tok))],
      payload = JsonBody (stringify_obj
        [(''event_type'', Some (JStr ''upload_model'')),
         (''client_payload'', Some (stringify_obj
            [(''glb'', map_option JStr glbBase64),
             (''usdz'', map_option JStr usdzBase64),
             (''pdbId'', Some (JStr pdbId))]))])\<rparr>"

text \<open>\<^verbatim>\<open>ui.tsx\<close> lines 98-175.\<close>

definition exportToAR_ui :: "env \<Rightarrow> unit comp" where
  "exportToAR_ui env =
     try_catch_finally
       (andThen (emit (SetState True)) (\<lambda>u.
        andThen (call ExportGeometry (exportGeometry env)) (\<lambda>data.
        (let pdbId = pdbId_ui (structures env);
             ts = timestamp (isoNow env);
             rid = randomId (random36 env);
             glbName = glbFilename pdbId ts rid;
             usdzName = usdzFilename pdbId ts rid
         in
        andThen (call (ReadBlob (data_blob data)) (blobToBase64_ui (readStatus env 0) (data_blob data))) (\<lambda>glbBase64.
        andThen (call (ReadBlob (data_blob data)) (blobToBase64_ui (readStatus env 1) (data_blob data))) (\<lambda>usdzBase64.
        andThen (emit (ConsoleLog ''Uploading Model to GitHub:'')) (\<lambda>u.
        andThen (emit (ConsoleLog ''PDB ID:'')) (\<lambda>u.
        andThen (emit (ConsoleLog ''GLB Filename:'')) (\<lambda>u.
        andThen (emit (ConsoleLog ''USDZ Filename:'')) (\<lambda>u.
        andThen (first100 glbBase64) (\<lambda>g.
        andThen (emit (ConsoleLog ''GLB Base64 (first 100 chars):'')) (\<lambda>u.
        andThen (first100 usdzBase64) (\<lambda>z.
        andThen (emit (ConsoleLog ''USDZ Base64 (first 100 chars):'')) (\<lambda>u.
        andThen (call (Fetch (dispatchRequest (githubToken env) pdbId glbBase64 usdzBase64))
                   (uploadResponse env)) (\<lambda>resp.
        if \<not> ok resp then throw (JsError (JStr ''Failed to trigger upload action''))
        else
          andThen (call (QRCodeToDataURL (Some (JStr (modelUrl glbName usdzName))))
                     (qrToDataURL env (Some (JStr (modelUrl glbName usdzName))))) (\<lambda>qrCodeUrl.
          emit (AppendPopup (Some (JStr (modelUrl glbName usdzName))) (Some (JStr qrCodeUrl)))))))))))))))))))
       (\<lambda>e. andThen (emit (ConsoleError e)) (\<lambda>u. emit (Alert ''Export to AR failed.'')))
       (emit (SetState False))"

subsection \<open>Proxy (\<^verbatim>\<open>part_000\<close>, and the second file of \<^verbatim>\<open>part_002\<close>)\<close>

definition UPLOAD_PROXY_URL :: string where
  "UPLOAD_PROXY_URL = ''https://molstar-uploader.onrender.com/upload''"

definition proxyRequest :: "(string \<times> header_value) list \<Rightarrow> string \<Rightarrow> string \<Rightarrow> string \<Rightarrow> request" where
  "proxyRequest hs pdbId glbBase64 usdzBase64 =
     \<lparr>url = UPLOAD_PROXY_URL, httpMethod = ''POST'', headers = hs,
      payload = JsonBody (stringify_obj
        [(''pdbId'', Some (JStr pdbId)),
         (''glb'', Some (JStr glbBase64)),
         (''usdz'', Some (JStr usdzBase64))])\<rparr>"

text \<open>\<^verbatim>\<open>showPopup\<close> (\<^verbatim>\<open>part_000\<close> lines 176-197): one overlay appended to the
  document, holding the link and the image source.\<close>

definition showPopup :: "json option \<Rightarrow> json option \<Rightarrow> unit comp" where
  "showPopup arLink qrCodeUrl = emit (AppendPopup arLink qrCodeUrl)"

text \<open>The export, encode and upload steps shared by \<^verbatim>\<open>part_000\<close> lines 143-166 and
  \<^verbatim>\<open>part_002\<close> lines 306-329.\<close>

definition proxy_pipeline :: "env \<Rightarrow> string \<Rightarrow> unit comp" where
  "proxy_pipeline env pdbId =
     andThen (emit (ConsoleLog ''Generating GLB model...'')) (\<lambda>u.
     andThen (call GlbExport (glbExport env)) (\<lambda>glbBlob.
     andThen (call (ReadBlob glbBlob) (blobToBase64_proxy (readStatus env 0) glbBlob)) (\<lambda>glbBase64.
     andThen (emit (ConsoleLog ''Generating USDZ model...'')) (\<lambda>u.
     andThen (call UsdzExport (usdzExport env)) (\<lambda>usdzBlob.
     andThen (call (ReadBlob usdzBlob) (blobToBase64_proxy (readStatus env 1) usdzBlob)) (\<lambda>usdzBase64.
     andThen (emit (ConsoleLog ''Uploading Model via Proxy Service...'')) (\<lambda>u.
     andThen (call (Fetch (proxyRequest [(''Content-Type'', Lit ''application/json'')]
                             pdbId glbBase64 usdzBase64))
                (uploadResponse env)) (\<lambda>resp.
     andThen (await (json_body resp)) (\<lambda>result.
     andThen (getProp result ''success'') (\<lambda>success.
     if truthy success then
       andThen (getProp result ''arLink'') (\<lambda>arLink.
       andThen (emit (ConsoleLog ''Upload successful:'')) (\<lambda>u.
       andThen (getProp result ''qrCodeUrl'') (\<lambda>qrCodeUrl.
       showPopup arLink qrCodeUrl)))
     else
       andThen (getProp result ''error'') (\<lambda>err.
       throw (JsError (or_json err (JStr ''Upload failed.''))))))))))))))"

text \<open>\<^verbatim>\<open>part_000\<close> lines 125-173. The two file names are computed and not used.\<close>

definition exportToAR_proxy :: "env \<Rightarrow> unit comp" where
  "exportToAR_proxy env =
     try_catch_finally
       (andThen (emit (SetState True)) (\<lambda>u.
        case structures env of
          [] \<Rightarrow> emit (Alert ''No structure loaded!'')
        | s # rest \<Rightarrow>
            (let pdbId = pdbId_proxy s;
                 ts = timestamp (isoNow env);
                 rid = randomString (random36 env);
                 glbName = glbFilename pdbId ts rid;
                 usdzName = usdzFilename pdbId ts rid
             in proxy_pipeline env pdbId)))
       (\<lambda>e. andThen (emit (ConsoleError e)) (\<lambda>u. emit (Alert ''Export failed. Check console for details.'')))
       (emit (SetState False))"

text \<open>\<^verbatim>\<open>part_002\<close> lines 293-336: the same without the file names.\<close>

definition exportToAR_proxy2 :: "env \<Rightarrow> unit comp" where
  "exportToAR_proxy2 env =
     try_catch_finally
       (andThen (emit (SetState True)) (\<lambda>u.
        case structures env of
          [] \<Rightarrow> emit (Alert ''No structure loaded!'')
        | s # rest \<Rightarrow> proxy_pipeline env (pdbId_proxy s)))
       (\<lambda>e. andThen (emit (ConsoleError e)) (\<lambda>u. emit (Alert ''Export failed. Check console for details.'')))
       (emit (SetState False))"

subsection \<open>Token proxy (\<^verbatim>\<open>part_001\<close>)\<close>

definition TOKEN_PROXY_URL :: string where
  "TOKEN_PROXY_URL = ''https://molstar-uploader.onrender.com/token''"

definition tokenRequest :: request where
  "tokenRequest = \<lparr>url = TOKEN_PROXY_URL, httpMethod = ''GET'', headers = [], payload = NoBody\<rparr>"

text \<open>\<^verbatim>\<open>part_001\<close> lines 121-171. \<^verbatim>\<open>const { token } = ...\<close> throws on
  \<^verbatim>\<open>null\<close> as a property read does.\<close>

definition exportToAR_token :: "env \<Rightarrow> unit comp" where
  "exportToAR_token env =
     try_catch_finally
       (andThen (emit (SetState True)) (\<lambda>u.
        andThen (call ExportGeometry (exportGeometry env)) (\<lambda>data.
        (let pdbId = pdbId_ui (structures env);
             ts = timestamp (isoNow env);
             rid = randomId (random36 env);
             glbName = glbFilename pdbId ts rid;
             usdzName = usdzFilename pdbId ts rid
         in
        andThen (emit (ConsoleLog ''Generating GLB model...'')) (\<lambda>u.
        andThen (call (ReadBlob (data_blob data)) (blobToBase64_proxy (readStatus env 0) (data_blob data))) (\<lambda>glbBase64.
        andThen (emit (ConsoleLog ''Generating USDZ model...'')) (\<lambda>u.
        andThen (call (ReadBlob (data_blob data)) (blobToBase64_proxy (readStatus env 1) (data_blob data))) (\<lambda>usdzBase64.
        andThen (emit (ConsoleLog ''Requesting GitHub Token...'')) (\<lambda>u.
        andThen (call (Fetch tokenRequest) (tokenResponse env)) (\<lambda>tokResp.
        if \<not> ok tokResp then throw (JsError (JStr ''Failed to retrieve GitHub token.''))
        else
          andThen (await (json_body tokResp)) (\<lambda>tokJson.
          andThen (getProp tokJson ''token'') (\<lambda>token.
          andThen (emit (ConsoleLog ''Uploading Model via Proxy Service...'')) (\<lambda>u.
          andThen (call (Fetch (proxyRequest [(''Content-Type'', Lit ''application/json''),
                                              (''Authorization'', Interp ''Bearer '' token)]
                                  pdbId glbBase64 usdzBase64))
                     (uploadResponse env)) (\<lambda>resp.
          andThen (await (json_body resp)) (\<lambda>result.
          andThen (getProp result ''success'') (\<lambda>success.
          if truthy success then
            andThen (getProp result ''arLink'') (\<lambda>arLink.
            andThen (emit (ConsoleLog ''Upload successful:'')) (\<lambda>u.
            andThen (emit (Alert ''Model uploaded! Scan the QR code or click the link to view in AR.'')) (\<lambda>u.
            emit (WindowOpen arLink))))
          else
            andThen (getProp result ''error'') (\<lambda>err.
            throw (JsError (or_json err (JStr ''Upload failed.''))))))))))))))))))))
       (\<lambda>e. andThen (emit (ConsoleError e)) (\<lambda>u. emit (Alert ''Export failed. Check console for details.'')))
       (emit (SetState False))"

subsection \<open>Multipart upload (first file of \<^verbatim>\<open>part_002\<close>)\<close>

definition UPLOADER_API_URL :: string where
  "UPLOADER_API_URL = ''https://molstar-uploader.onrender.com/upload''"

definition multipartRequest :: "string \<Rightarrow> blob \<Rightarrow> string \<Rightarrow> string \<Rightarrow> request" where
  "multipartRequest pdbId b glbName usdzName =
     \<lparr>url = UPLOADER_API_URL, httpMethod = ''POST'', headers = [],
      payload = FormBody
        [(''pdbId'', FormText pdbId),
         (''glb'', FormFile (bytes b) glbName ''model/gltf-binary''),
         (''usdz'', FormFile (bytes b) usdzName ''model/vnd.usdz+zip'')]\<rparr>"

text \<open>\<^verbatim>\<open>part_002\<close> lines 95-168.\<close>

definition exportToAR_multipart :: "env \<Rightarrow> unit comp" where
  "exportToAR_multipart env =
     try_catch_finally
       (andThen (emit (SetState True)) (\<lambda>u.
        andThen (call ExportGeometry (exportGeometry env)) (\<lambda>data.
        (let pdbId = pdbId_ui (structures env);
             ts = timestamp (isoNow env);
             rid = randomId (random36 env);
             glbName = glbFilename pdbId ts rid;
             usdzName = usdzFilename pdbId ts rid
         in
        andThen (emit (ConsoleLog ''Uploading Model via Render Service:'')) (\<lambda>u.
        andThen (emit (ConsoleLog ''PDB ID:'')) (\<lambda>u.
        andThen (emit (ConsoleLog ''GLB Filename:'')) (\<lambda>u.
        andThen (emit (ConsoleLog ''USDZ Filename:'')) (\<lambda>u.
        andThen (call (Fetch (multipartRequest pdbId (data_blob data) glbName usdzName))
                   (uploadResponse env)) (\<lambda>resp.
        if \<not> ok resp then throw (UploadStatusError (status resp))
        else
          andThen (await (json_body resp)) (\<lambda>result.
          andThen (emit (ConsoleLog ''Upload successful:'')) (\<lambda>u.
          andThen (getProp result ''arLink'') (\<lambda>arLink.
          andThen (call (QRCodeToDataURL arLink) (qrToDataURL env arLink)) (\<lambda>qrCodeUrl.
          emit (AppendPopup arLink (Some (JStr qrCodeUrl))))))))))))))))
       (\<lambda>e. andThen (emit (ConsoleError e)) (\<lambda>u. emit (Alert ''Export to AR failed.'')))
       (emit (SetState False))"

subsection \<open>Save and the local AR preview\<close>

text \<open>\<^verbatim>\<open>save\<close>: the same text in all five versions.\<close>

definition save :: "env \<Rightarrow> unit comp" where
  "save env =
     try_catch_finally
       (andThen (emit (SetState True)) (\<lambda>u.
        andThen (call ExportGeometry (exportGeometry env)) (\<lambda>data.
        emit (Download (data_blob data) (data_filename data)))))
       (\<lambda>e. emit (ConsoleError e))
       (emit (SetState False))"

text \<open>\<^verbatim>\<open>4E4\<close> milliseconds, commented \<^verbatim>\<open>// 40s\<close> in the source.\<close>

definition revokeDelay :: nat where
  "revokeDelay = 40000"

text \<open>\<^verbatim>\<open>viewInAR\<close>: \<^verbatim>\<open>part_000\<close> lines 108-123, \<^verbatim>\<open>part_001\<close> lines 104-119,
  \<^verbatim>\<open>part_002\<close> lines 276-291 (the same text). The second timer has no delay
  argument, which is a delay of 0.\<close>

definition viewInAR :: "env \<Rightarrow> unit comp" where
  "viewInAR env =
     try_catch_finally
       (andThen (emit (SetState True)) (\<lambda>u.
        andThen (call ExportGeometry (exportGeometry env)) (\<lambda>data.
        andThen (emit (CreateObjectURL (data_blob data) (objectURL env))) (\<lambda>u.
        andThen (emit (SetTimeout (RevokeObjectURL (objectURL env)) revokeDelay)) (\<lambda>u.
        emit (SetTimeout DispatchClick 0))))))
       (\<lambda>e. emit (ConsoleError e))
       (emit (SetState False))"

text \<open>The timers of a trace that have come due once \<open>now\<close> milliseconds have passed,
  and the object URLs created and not yet revoked by then.\<close>

fun due :: "nat \<Rightarrow> event list \<Rightarrow> task list" where
  "due now [] = []"
| "due now (SetTimeout k d # evs) = (if d \<le> now then k # due now evs else due now evs)"
| "due now (ev # evs) = due now evs"

fun created :: "event list \<Rightarrow> string list" where
  "created [] = []"
| "created (CreateObjectURL b u # evs) = u # created evs"
| "created (ev # evs) = created evs"

definition live_urls :: "nat \<Rightarrow> event list \<Rightarrow> string list" where
  "live_urls now evs = filter (\<lambda>u. RevokeObjectURL u \<notin> set (due now evs)) (created evs)"

section \<open>The controls and the busy flag\<close>

record ui_state =
  busy :: "bool option"
  isCollapsed :: bool

text \<open>\<^verbatim>\<open>defaultState\<close>: \<^verbatim>\<open>busy\<close> is not set.\<close>

definition defaultState :: ui_state where
  "defaultState = \<lparr>busy = None, isCollapsed = True\<rparr>"

definition setState :: "ui_state \<Rightarrow> bool \<Rightarrow> ui_state" where
  "setState st b = st\<lparr>busy := Some b\<rparr>"

text \<open>The state after the \<^verbatim>\<open>setState\<close> calls of a trace.\<close>

fun after_events :: "ui_state \<Rightarrow> event list \<Rightarrow> ui_state" where
  "after_events st [] = st"
| "after_events st (SetState b # evs) = after_events (setState st b) evs"
| "after_events st (ev # evs) = after_events st evs"

text \<open>What a render reads besides the state: \<^verbatim>\<open>plugin.canvas3d?.reprCount.value\<close>
  (\<open>None\<close> without a canvas), the memoised AR capability and the chosen format.\<close>

record render_ctx =
  reprCount :: "nat option"
  isARSupported :: bool
  format :: string

datatype button = SaveButton | ViewInARButton | ExportToARButton

record controls =
  paramsDisabled :: bool
  buttons :: "(button \<times> bool) list"

text \<open>\<^verbatim>\<open>this.state.busy || !this.plugin.canvas3d?.reprCount.value\<close>, the
  \<^verbatim>\<open>disabled\<close> property of every button.\<close>

definition triggerDisabled :: "ui_state \<Rightarrow> render_ctx \<Rightarrow> bool" where
  "triggerDisabled st ctx =
     (busy st = Some True \<or> (case reprCount ctx of None \<Rightarrow> True | Some n \<Rightarrow> n = 0))"

text \<open>\<^verbatim>\<open>renderControls\<close> of \<^verbatim>\<open>ui.tsx\<close> (lines 44-65) and of the multipart
  version: two buttons, each paired here with its \<^verbatim>\<open>disabled\<close> property.\<close>

definition renderControls_ui :: "ui_state \<Rightarrow> render_ctx \<Rightarrow> controls" where
  "renderControls_ui st ctx =
     \<lparr>paramsDisabled = (busy st = Some True),
      buttons = [(SaveButton, triggerDisabled st ctx), (ExportToARButton, triggerDisabled st ctx)]\<rparr>"

text \<open>\<^verbatim>\<open>renderControls\<close> of the proxy and token-proxy versions (\<^verbatim>\<open>part_000\<close>
  lines 45-75): the preview button is rendered when AR is supported and the format is
  \<^verbatim>\<open>usdz\<close>.\<close>

definition renderControls_proxy :: "ui_state \<Rightarrow> render_ctx \<Rightarrow> controls" where
  "renderControls_proxy st ctx =
     \<lparr>paramsDisabled = (busy st = Some True),
      buttons = [(SaveButton, triggerDisabled st ctx)]
        @ (if isARSupported ctx \<and> format ctx = ''usdz''
           then [(ViewInARButton, triggerDisabled st ctx)] else [])
        @ [(ExportToARButton, triggerDisabled st ctx)]\<rparr>"

text \<open>
  Modelled from the spec: the \<^verbatim>\<open>Button\<close> component of
  \<^verbatim>\<open>mol-plugin-ui/controls/common\<close> is not among the sources. The spec has a
  trigger rejected "by disabling the triggering controls": a button rendered with
  \<^verbatim>\<open>disabled\<close> true, or not rendered, calls no handler when clicked.
\<close>

definition clickable :: "controls \<Rightarrow> button \<Rightarrow> bool" where
  "clickable cs b = ((b, False) \<in> set (buttons cs))"

text \<open>
  The controller between user actions: the component state and the handlers that have
  started and not finished (a handler that waits forever stays there). Every handler
  calls \<^verbatim>\<open>setState({ busy: true })\<close> first when it starts and
  \<^verbatim>\<open>setState({ busy: false })\<close> in its \<^verbatim>\<open>finally\<close> block when it finishes.
\<close>

record controller =
  ui :: ui_state
  inflight :: "button list"

datatype action = Click button render_ctx | Finish nat

definition initial :: controller where
  "initial = \<lparr>ui = defaultState, inflight = []\<rparr>"

fun step :: "(ui_state \<Rightarrow> render_ctx \<Rightarrow> controls) \<Rightarrow> controller \<Rightarrow> action \<Rightarrow> controller" where
  "step render c (Click b ctx) =
     (if clickable (render (ui c) ctx) b
      then \<lparr>ui = setState (ui c) True, inflight = inflight c @ [b]\<rparr>
      else c)"
| "step render c (Finish k) =
     (if k < length (inflight c)
      then \<lparr>ui = setState (ui c) False, inflight = take k (inflight c) @ drop (Suc k) (inflight c)\<rparr>
      else c)"

definition run_actions :: "(ui_state \<Rightarrow> render_ctx \<Rightarrow> controls) \<Rightarrow> controller \<Rightarrow> action list \<Rightarrow> controller" where
  "run_actions render c acts = foldl (step render) c acts"

section \<open>Observing a trace\<close>

text \<open>The requests sent, the causes written with \<^verbatim>\<open>console.error\<close>, the notices
  shown with \<^verbatim>\<open>alert\<close> and the overlays appended or windows opened.\<close>

definition fetches :: "event list \<Rightarrow> request list" where
  "fetches t = concat (map (\<lambda>ev. case ev of Fetch req \<Rightarrow> [req] | _ \<Rightarrow> []) t)"

definition logged :: "event list \<Rightarrow> error list" where
  "logged t = concat (map (\<lambda>ev. case ev of ConsoleError e \<Rightarrow> [e] | _ \<Rightarrow> []) t)"

definition alerts :: "event list \<Rightarrow> string list" where
  "alerts t = concat (map (\<lambda>ev. case ev of Alert msg \<Rightarrow> [msg] | _ \<Rightarrow> []) t)"




text \<open>A failure that stays inside the handler: it returns, it has sent nothing, it has
  logged the cause, shown one notice, and left the busy flag false.\<close>

definition contained :: "ui_state \<Rightarrow> error \<Rightarrow> string \<Rightarrow> unit comp \<Rightarrow> bool" where
  "contained st e msg r =
     (fst r = Val () \<and> fetches (snd r) = [] \<and> logged (snd r) = [e] \<and> alerts (snd r) = [msg]
      \<and> busy (after_events st (snd r)) = Some False)"

section \<open>Sample inputs\<close>

definition glb_sample :: blob where
  "glb_sample = \<lparr>btype = ''model/gltf-binary'', bytes = [0x67, 0x6C, 0x54, 0x46]\<rparr>"

definition usdz_sample :: blob where
  "usdz_sample = \<lparr>btype = ''model/vnd.usdz+zip'', bytes = [0x50, 0x4B]\<rparr>"



definition upload_ok :: response where
  "upload_ok = \<lparr>ok = True, status = 200,
     json_body = Fulfilled (JObj [(''success'', JBool True), (''arLink'', JStr ''https://x/y''),
                                  (''qrCodeUrl'', JStr ''data:q'')])\<rparr>"

definition env_sample :: env where
  "env_sample =
     \<lparr>structures = [\<lparr>entryId = Some ''1CRN''\<rparr>],
      isoNow = ''2025-03-01T12:00:00.000Z'',
      random36 = ''0.4fzyo82mvyr'',
      exportGeometry = Fulfilled \<lparr>data_blob = glb_sample, data_filename = ''1crn.glb''\<rparr>,
      glbExport = Fulfilled glb_sample,
      usdzExport = Fulfilled usdz_sample,
      readStatus = (\<lambda>k. ReadOk),
      githubToken = Some ''t'',
      tokenResponse = Fulfilled \<lparr>ok = True, status = 200,
        json_body = Fulfilled (JObj [(''token'', JStr ''abc'')])\<rparr>,
      uploadResponse = Fulfilled upload_ok,
      qrToDataURL = (\<lambda>v. Fulfilled ''data:qr''),
      objectURL = ''blob:1''\<rparr>"

section \<open>Notions used in the proofs\<close>

text \<open>The values a trace gives to the busy flag, in order; a handler brackets its work
  when it sets the flag first, clears it last unless it waits forever, and does not touch
  it in between.\<close>

definition setStates :: "event list \<Rightarrow> bool list" where
  "setStates t = concat (map (\<lambda>ev. case ev of SetState b \<Rightarrow> [b] | _ \<Rightarrow> []) t)"

definition brackets :: "unit comp \<Rightarrow> bool" where
  "brackets c = (setStates (snd c) = (if fst c = Hang then [True] else [True, False]))"


text \<open>The busy flag is true exactly while one handler is in flight, and none is
  otherwise.\<close>

definition gate_inv :: "controller \<Rightarrow> bool" where
  "gate_inv c = (if busy (ui c) = Some True then length (inflight c) = 1 else inflight c = [])"

section \<open>Properties\<close>

subsection \<open>Running blocks\<close>

lemma fst_andThen:
  "fst (andThen m f) = (case fst m of Val a \<Rightarrow> fst (f a) | Throw e \<Rightarrow> Throw e | Hang \<Rightarrow> Hang)"
  by (cases m) (auto simp: andThen_def split: outcome.splits prod.splits)

lemma snd_andThen:
  "snd (andThen m f) = snd m @ (case fst m of Val a \<Rightarrow> snd (f a) | Throw e \<Rightarrow> [] | Hang \<Rightarrow> [])"
  by (cases m) (auto simp: andThen_def split: outcome.splits prod.splits)

lemma emit_parts: "fst (emit ev) = Val ()" "snd (emit ev) = [ev]"
  by (simp_all add: emit_def)

lemma throw_parts: "fst (throw e) = Throw e" "snd (throw e) = []"
  by (simp_all add: throw_def)

lemma ret_parts: "fst (ret a) = Val a" "snd (ret a) = []"
  by (simp_all add: ret_def)

lemma await_parts:
  "fst (await p) = (case p of Pending \<Rightarrow> Hang | Fulfilled v \<Rightarrow> Val v | Rejected e \<Rightarrow> Throw e)"
  "snd (await p) = []"
  by (simp_all add: await_def split: promise.splits)

lemma call_parts:
  "fst (call ev p) = (case p of Pending \<Rightarrow> Hang | Fulfilled v \<Rightarrow> Val v | Rejected e \<Rightarrow> Throw e)"
  "snd (call ev p) = [ev]"
  by (simp_all add: call_def fst_andThen snd_andThen emit_parts await_parts)

lemma fst_try_catch_finally:
  "fst (try_catch_finally body handler fin) =
     (case fst body of
        Val a \<Rightarrow> fst fin
      | Throw e \<Rightarrow> (case fst (handler e) of Val a \<Rightarrow> fst fin | Throw e' \<Rightarrow> Throw e' | Hang \<Rightarrow> Hang)
      | Hang \<Rightarrow> Hang)"
  by (cases body) (auto simp: try_catch_finally_def andThen_def split: outcome.splits prod.splits)

lemma snd_try_catch_finally:
  "snd (try_catch_finally body handler fin) =
     snd body @
     (case fst body of
        Val a \<Rightarrow> snd fin
      | Throw e \<Rightarrow> snd (handler e) @ (case fst (handler e) of Val a \<Rightarrow> snd fin | Throw e' \<Rightarrow> [] | Hang \<Rightarrow> [])
      | Hang \<Rightarrow> [])"
  by (cases body) (auto simp: try_catch_finally_def andThen_def split: outcome.splits prod.splits)

lemmas run_simps = fst_andThen snd_andThen emit_parts throw_parts ret_parts await_parts call_parts
  fst_try_catch_finally snd_try_catch_finally

lemma comp_eqI: "fst c = r \<Longrightarrow> snd c = t \<Longrightarrow> c = (r, t)"
  by (cases c) simp


subsection \<open>Splitting at commas\<close>

lemma split_on_not_Nil: "split_on c s \<noteq> []"
  by (induction s) (auto split: list.splits)

lemma split_on_absent: "c \<notin> set s \<Longrightarrow> split_on c s = [s]"
  by (induction s) auto

lemma split_on_first: "c \<notin> set h \<Longrightarrow> split_on c (h @ c # t) = h # split_on c t"
  by (induction h) auto






subsection \<open>Settled promises stay settled\<close>

lemma onload_Fulfilled: "foldl onload_handlers (Fulfilled v) run = Fulfilled v"
proof (induction run)
  case Nil
  show ?case by simp
next
  case (Cons ev run)
  obtain k r where ev: "ev = (k, r)" by (cases ev)
  have "onload_handlers (Fulfilled v) (k, r) = Fulfilled v"
    by (cases k; cases r) (simp_all add: resolve_def reject_def)
  with Cons ev show ?case by simp
qed

lemma onloadend_Fulfilled: "foldl onloadend_handlers (Fulfilled v) run = Fulfilled v"
proof (induction run)
  case Nil
  show ?case by simp
next
  case (Cons ev run)
  obtain k r where ev: "ev = (k, r)" by (cases ev)
  have "onloadend_handlers (Fulfilled v) (k, r) = Fulfilled v"
    by (cases k) (simp_all add: resolve_def reject_def)
  with Cons ev show ?case by simp
qed

lemma onloadend_Rejected: "foldl onloadend_handlers (Rejected e) run = Rejected e"
proof (induction run)
  case Nil
  show ?case by simp
next
  case (Cons ev run)
  obtain k r where ev: "ev = (k, r)" by (cases ev)
  have "onloadend_handlers (Rejected e) (k, r) = Rejected e"
    by (cases k) (simp_all add: resolve_def reject_def)
  with Cons ev show ?case by simp
qed

lemma onloadend_quiet_prefix:
  assumes "\<forall>ev \<in> set pre. fst ev \<noteq> EvLoadend \<and> (\<forall>n. fst ev \<noteq> EvError n)"
  shows "foldl onloadend_handlers Pending pre = Pending"
  using assms
proof (induction pre)
  case Nil
  show ?case by simp
next
  case (Cons ev pre)
  obtain k r where ev: "ev = (k, r)" by (cases ev)
  from Cons.prems ev have "k \<noteq> EvLoadend" and "\<forall>n. k \<noteq> EvError n" by auto
  then have "onloadend_handlers Pending (k, r) = Pending" by (cases k) simp_all
  with Cons ev show ?case by simp
qed

lemma onloadend_reject_origin:
  "foldl onloadend_handlers p run = Rejected e \<Longrightarrow>
     p = Rejected e \<or> (\<exists>n r. e = ProgressEvent n \<and> (EvError n, r) \<in> set run)"
proof (induction run arbitrary: p)
  case Nil
  then show ?case by simp
next
  case (Cons ev run)
  obtain k r where ev: "ev = (k, r)" by (cases ev)
  from Cons.prems ev have "foldl onloadend_handlers (onloadend_handlers p (k, r)) run = Rejected e"
    by simp
  from Cons.IH [OF this] consider
      (step) "onloadend_handlers p (k, r) = Rejected e"
    | (later) "\<exists>n r'. e = ProgressEvent n \<and> (EvError n, r') \<in> set run"
    by blast
  then show ?case
  proof cases
    case step
    then show ?thesis using ev
      by (cases k; cases p) (auto simp: resolve_def reject_def)
  next
    case later
    then show ?thesis by auto
  qed
qed

lemma base64data_empty:
  assumes "r = None \<or> (\<exists>s. r = Some s \<and> CHR '','' \<notin> set s)
           \<or> (\<exists>h. r = Some (h @ '','') \<and> CHR '','' \<notin> set h)"
  shows "or_empty (base64data r) = []"
proof -
  from assms consider (null) "r = None"
    | (plain) s where "r = Some s" "CHR '','' \<notin> set s"
    | (bare) h where "r = Some (h @ '','')" "CHR '','' \<notin> set h"
    by blast
  then show ?thesis
  proof cases
    case null
    then show ?thesis by (simp add: base64data_def or_empty_def)
  next
    case plain
    then show ?thesis
      by (simp add: base64data_def or_empty_def split_on_absent at_index_def)
  next
    case bare
    then show ?thesis
      by (simp add: base64data_def or_empty_def split_on_first at_index_def)
  qed
qed


subsection \<open>C7: what blobToBase64 returns\<close>




subsection \<open>C10: the proxy versions fulfil with the empty string\<close>

text \<open>
  C10. In the proxy versions, when \<^verbatim>\<open>loadend\<close> arrives with no error signalled
  before it and the result is \<^verbatim>\<open>null\<close>, or holds no comma, or holds nothing after
  its comma, the promise fulfils with the empty string; and whenever the promise rejects,
  the reader has signalled an error.
\<close>

theorem blobToBase64_proxy_settles:
  "((\<forall>ev \<in> set pre. fst ev \<noteq> EvLoadend \<and> (\<forall>n. fst ev \<noteq> EvError n))
     \<and> (r = None \<or> (\<exists>s. r = Some s \<and> CHR '','' \<notin> set s)
          \<or> (\<exists>h. r = Some (h @ '','') \<and> CHR '','' \<notin> set h))
     \<longrightarrow> blobToBase64_proxy_run (pre @ (EvLoadend, r) # post) = Fulfilled [])
   \<and> (blobToBase64_proxy_run run = Rejected e
     \<longrightarrow> (\<exists>n r'. e = ProgressEvent n \<and> (EvError n, r') \<in> set run))"
proof (intro conjI impI)
  assume h: "(\<forall>ev \<in> set pre. fst ev \<noteq> EvLoadend \<and> (\<forall>n. fst ev \<noteq> EvError n))
     \<and> (r = None \<or> (\<exists>s. r = Some s \<and> CHR '','' \<notin> set s)
          \<or> (\<exists>h. r = Some (h @ '','') \<and> CHR '','' \<notin> set h))"
  then have quiet: "foldl onloadend_handlers Pending pre = Pending"
    using onloadend_quiet_prefix by blast
  from h have "or_empty (base64data r) = []"
    using base64data_empty by blast
  with quiet show "blobToBase64_proxy_run (pre @ (EvLoadend, r) # post) = Fulfilled []"
    by (simp add: blobToBase64_proxy_run_def resolve_def onloadend_Fulfilled)
next
  assume "blobToBase64_proxy_run run = Rejected e"
  then have "foldl onloadend_handlers Pending run = Rejected e"
    by (simp add: blobToBase64_proxy_run_def)
  from onloadend_reject_origin [OF this]
  show "\<exists>n r'. e = ProgressEvent n \<and> (EvError n, r') \<in> set run" by simp
qed

theorem blobToBase64_proxy_settles_witness:
  "blobToBase64_proxy_run [(EvAbort, None), (EvLoadend, None)] = Fulfilled []
   \<and> blobToBase64_proxy_run [(EvLoad, Some ''data:''), (EvLoadend, Some ''data:'')] = Fulfilled []
   \<and> blobToBase64_proxy_run [(EvError ''NotReadableError'', None), (EvLoadend, None)]
       = Rejected (ProgressEvent ''NotReadableError'')
   \<and> (\<exists>n r'. ProgressEvent ''NotReadableError'' = ProgressEvent n
         \<and> (EvError n, r') \<in> set [(EvError ''NotReadableError'', None), (EvLoadend, None)])"
proof -
  have rej: "blobToBase64_proxy_run [(EvError ''NotReadableError'', None), (EvLoadend, None)]
       = Rejected (ProgressEvent ''NotReadableError'')"
    by (simp add: blobToBase64_proxy_run_def reject_def resolve_def)
  show ?thesis
    using blobToBase64_proxy_settles
            [of "[(EvAbort, None)]" None "[]"
                "[(EvError ''NotReadableError'', None), (EvLoadend, None)]"
                "ProgressEvent ''NotReadableError''"]
          blobToBase64_proxy_settles
            [of "[(EvLoad, Some ''data:'')]" "Some ''data:''" "[]" "[]" "HostError []"]
          rej
    by simp
qed

lemma substring_2_8: "substring s 2 8 = take 6 (drop 2 s)"
  by (auto simp: substring_def Let_def min_def max_def)

lemma slice_2_8: "slice s 2 8 = take 6 (drop 2 s)"
  by (auto simp: slice_def Let_def min_def)

subsection \<open>C6: the length of the random token\<close>

text \<open>
  C6, as the code has it. The token is the six characters after the first two of the
  base-36 text of the random number, or as many as that text has: its length is the
  smaller of 6 and the length of the text minus 2, never more than 6.
\<close>

theorem randomId_length:
  "randomId rnd36 = take 6 (drop 2 rnd36)
   \<and> randomString rnd36 = take 6 (drop 2 rnd36)
   \<and> length (randomId rnd36) = min 6 (length rnd36 - 2)
   \<and> length (randomString rnd36) = min 6 (length rnd36 - 2)"
  by (simp add: randomId_def randomString_def substring_2_8 slice_2_8)

text \<open>
  C6 as stated fails: \<^verbatim>\<open>Math.random()\<close> may return 0.5, whose base-36 text is
  \<^verbatim>\<open>"0.i"\<close>; the token is then the single character \<^verbatim>\<open>"i"\<close>.
\<close>

theorem randomId_short_counterexample:
  "\<not> 6 \<le> length (randomId ''0.i'') \<and> \<not> 6 \<le> length (randomString ''0.i'')"
  by (simp add: randomId_def randomString_def substring_def slice_def)

lemma timestamp_no_dash: "CHR ''-'' \<notin> set (timestamp isoText)"
  by (simp add: timestamp_def)

lemma sep_eq:
  assumes "c \<notin> set a" "c \<notin> set b"
  shows "a @ c # x = b @ c # y \<longleftrightarrow> a = b \<and> x = y"
  using assms
proof (induction a arbitrary: b)
  case Nil
  then show ?case by (cases b) auto
next
  case (Cons h a)
  then show ?case by (cases b) auto
qed

subsection \<open>C5: when two invocations derive the same file names\<close>

text \<open>
  C5, as the code has it. For one subject, two invocations derive the same
  \<^verbatim>\<open>.glb\<close> name, and the same \<^verbatim>\<open>.usdz\<close> name, exactly when their stripped
  timestamps are equal and their random tokens are equal; the names differ as soon as
  one of the two differs.
\<close>

theorem filenames_equal_iff:
  "(glbFilename pdbId (timestamp iso1) (randomId r1) = glbFilename pdbId (timestamp iso2) (randomId r2)
      \<longleftrightarrow> timestamp iso1 = timestamp iso2 \<and> randomId r1 = randomId r2)
   \<and> (usdzFilename pdbId (timestamp iso1) (randomId r1) = usdzFilename pdbId (timestamp iso2) (randomId r2)
      \<longleftrightarrow> timestamp iso1 = timestamp iso2 \<and> randomId r1 = randomId r2)
   \<and> (glbFilename pdbId (timestamp iso1) (randomString r1) = glbFilename pdbId (timestamp iso2) (randomString r2)
      \<longleftrightarrow> timestamp iso1 = timestamp iso2 \<and> randomString r1 = randomString r2)
   \<and> (usdzFilename pdbId (timestamp iso1) (randomString r1) = usdzFilename pdbId (timestamp iso2) (randomString r2)
      \<longleftrightarrow> timestamp iso1 = timestamp iso2 \<and> randomString r1 = randomString r2)"
  using sep_eq [OF timestamp_no_dash [of iso1] timestamp_no_dash [of iso2]]
  by (simp add: glbFilename_def usdzFilename_def)

text \<open>
  C5 as stated fails: two invocations that read the same millisecond of the clock and
  draw two different random numbers whose base-36 texts agree on their first six digits
  derive the same names.
\<close>

theorem filenames_collide_counterexample:
  "glbFilename ''1CRN'' (timestamp ''2025-03-01T12:00:00.000Z'') (randomId ''0.4fzyo82mvyr'')
     = glbFilename ''1CRN'' (timestamp ''2025-03-01T12:00:00.000Z'') (randomId ''0.4fzyo8a1b2c'')
   \<and> usdzFilename ''1CRN'' (timestamp ''2025-03-01T12:00:00.000Z'') (randomId ''0.4fzyo82mvyr'')
     = usdzFilename ''1CRN'' (timestamp ''2025-03-01T12:00:00.000Z'') (randomId ''0.4fzyo8a1b2c'')"
  by (simp add: glbFilename_def usdzFilename_def randomId_def substring_def)


subsection \<open>C8: the local AR preview releases its object URL\<close>

text \<open>
  C8. Whenever the export succeeds, \<^verbatim>\<open>viewInAR\<close> creates one object URL and
  schedules its revocation 40000 ms (40 s, between 10 s and 100 s) later: the URL is live
  before that delay has passed and revoked once it has.
\<close>

theorem viewInAR_releases:
  "exportGeometry env = Fulfilled data \<Longrightarrow>
     viewInAR env =
       (Val (), [SetState True, ExportGeometry,
                 CreateObjectURL (data_blob data) (objectURL env),
                 SetTimeout (RevokeObjectURL (objectURL env)) revokeDelay,
                 SetTimeout DispatchClick 0, SetState False])
     \<and> revokeDelay = 40 * 1000 \<and> 10 * 1000 \<le> revokeDelay \<and> revokeDelay < 100 * 1000
     \<and> (\<forall>now. now < revokeDelay \<longrightarrow> live_urls now (snd (viewInAR env)) = [objectURL env])
     \<and> (\<forall>now. revokeDelay \<le> now \<longrightarrow> live_urls now (snd (viewInAR env)) = [])"
proof -
  assume ex: "exportGeometry env = Fulfilled data"
  have tr: "viewInAR env =
       (Val (), [SetState True, ExportGeometry,
                 CreateObjectURL (data_blob data) (objectURL env),
                 SetTimeout (RevokeObjectURL (objectURL env)) revokeDelay,
                 SetTimeout DispatchClick 0, SetState False])"
    by (rule comp_eqI) (simp_all add: viewInAR_def run_simps ex)
  have early: "\<forall>now. now < revokeDelay \<longrightarrow> live_urls now (snd (viewInAR env)) = [objectURL env]"
    by (simp add: tr live_urls_def)
  have late: "\<forall>now. revokeDelay \<le> now \<longrightarrow> live_urls now (snd (viewInAR env)) = []"
    by (simp add: tr live_urls_def)
  have "revokeDelay = 40 * 1000 \<and> 10 * 1000 \<le> revokeDelay \<and> revokeDelay < 100 * 1000"
    by (simp add: revokeDelay_def)
  with tr early late show ?thesis by blast
qed

theorem viewInAR_releases_witness:
  "exportGeometry env_sample = Fulfilled \<lparr>data_blob = glb_sample, data_filename = ''1crn.glb''\<rparr>
   \<and> snd (viewInAR env_sample) =
       [SetState True, ExportGeometry, CreateObjectURL glb_sample ''blob:1'',
        SetTimeout (RevokeObjectURL ''blob:1'') 40000, SetTimeout DispatchClick 0, SetState False]
   \<and> live_urls 39999 (snd (viewInAR env_sample)) = [''blob:1'']
   \<and> live_urls 40000 (snd (viewInAR env_sample)) = []"
proof -
  have ex: "exportGeometry env_sample = Fulfilled \<lparr>data_blob = glb_sample, data_filename = ''1crn.glb''\<rparr>"
    by (simp add: env_sample_def)
  have url: "objectURL env_sample = ''blob:1''"
    by (simp add: env_sample_def)
  note rel = viewInAR_releases [OF ex]
  from rel url have tr: "snd (viewInAR env_sample) =
       [SetState True, ExportGeometry, CreateObjectURL glb_sample ''blob:1'',
        SetTimeout (RevokeObjectURL ''blob:1'') 40000, SetTimeout DispatchClick 0, SetState False]"
    by (simp add: revokeDelay_def)
  from rel have "39999 < revokeDelay \<longrightarrow> live_urls 39999 (snd (viewInAR env_sample)) = [objectURL env_sample]"
    by blast
  then have early: "live_urls 39999 (snd (viewInAR env_sample)) = [''blob:1'']"
    by (simp add: revokeDelay_def url)
  from rel have "revokeDelay \<le> 40000 \<longrightarrow> live_urls 40000 (snd (viewInAR env_sample)) = []"
    by blast
  then have late: "live_urls 40000 (snd (viewInAR env_sample)) = []"
    by (simp add: revokeDelay_def)
  from ex tr early late show ?thesis by blast
qed

subsection \<open>C2: the check for a loaded structure\<close>

text \<open>
  C2, as the code has it. With no structure loaded, the proxy versions (\<^verbatim>\<open>part_000\<close>
  and the second file of \<^verbatim>\<open>part_002\<close>) set the busy flag, show
  \<^verbatim>\<open>No structure loaded!\<close>, clear the flag and return, without calling an exporter.
  The direct-dispatch, token-proxy and multipart versions have no such check: they call
  \<^verbatim>\<open>exportGeometry\<close> first and name the subject \<^verbatim>\<open>Unknown\<close>.
\<close>

theorem no_subject_guard:
  "structures env = [] \<Longrightarrow>
     exportToAR_proxy env = (Val (), [SetState True, Alert ''No structure loaded!'', SetState False])
     \<and> exportToAR_proxy2 env = (Val (), [SetState True, Alert ''No structure loaded!'', SetState False])
     \<and> take 2 (snd (exportToAR_ui env)) = [SetState True, ExportGeometry]
     \<and> take 2 (snd (exportToAR_token env)) = [SetState True, ExportGeometry]
     \<and> take 2 (snd (exportToAR_multipart env)) = [SetState True, ExportGeometry]
     \<and> pdbId_ui (structures env) = ''Unknown''"
proof -
  assume none: "structures env = []"
  have p1: "exportToAR_proxy env = (Val (), [SetState True, Alert ''No structure loaded!'', SetState False])"
    by (rule comp_eqI) (simp_all add: exportToAR_proxy_def run_simps none)
  have p2: "exportToAR_proxy2 env = (Val (), [SetState True, Alert ''No structure loaded!'', SetState False])"
    by (rule comp_eqI) (simp_all add: exportToAR_proxy2_def run_simps none)
  have u: "take 2 (snd (exportToAR_ui env)) = [SetState True, ExportGeometry]"
    by (simp add: exportToAR_ui_def run_simps)
  have t: "take 2 (snd (exportToAR_token env)) = [SetState True, ExportGeometry]"
    by (simp add: exportToAR_token_def run_simps)
  have m: "take 2 (snd (exportToAR_multipart env)) = [SetState True, ExportGeometry]"
    by (simp add: exportToAR_multipart_def run_simps)
  from p1 p2 u t m none show ?thesis by (simp add: pdbId_ui_def)
qed


theorem no_subject_guard_witness:
  "structures (env_sample\<lparr>structures := []\<rparr>) = []
   \<and> exportToAR_proxy (env_sample\<lparr>structures := []\<rparr>)
       = (Val (), [SetState True, Alert ''No structure loaded!'', SetState False])
   \<and> exportToAR_proxy2 (env_sample\<lparr>structures := []\<rparr>)
       = (Val (), [SetState True, Alert ''No structure loaded!'', SetState False])"
proof -
  have none: "structures (env_sample\<lparr>structures := []\<rparr>) = []" by simp
  from no_subject_guard [OF none] none show ?thesis by blast
qed

text \<open>
  C2 as stated fails in the token-proxy version: with no structure loaded it calls
  \<^verbatim>\<open>exportGeometry\<close>, shows no such notice and uploads under the name
  \<^verbatim>\<open>Unknown\<close>.
\<close>

theorem no_subject_guard_counterexample:
  "structures (env_sample\<lparr>structures := []\<rparr>) = []
   \<and> snd (exportToAR_token (env_sample\<lparr>structures := []\<rparr>)) ! 1 = ExportGeometry
   \<and> Alert ''No structure loaded!'' \<notin> set (snd (exportToAR_token (env_sample\<lparr>structures := []\<rparr>)))
   \<and> fetches (snd (exportToAR_token (env_sample\<lparr>structures := []\<rparr>)))
       = [tokenRequest,
          proxyRequest [(''Content-Type'', Lit ''application/json''),
                        (''Authorization'', Interp ''Bearer '' (Some (JStr ''abc'')))]
            ''Unknown'' ''Z2xURg=='' ''Z2xURg=='']"
  by (simp add: exportToAR_token_def run_simps env_sample_def upload_ok_def glb_sample_def
      blobToBase64_proxy_def blobToBase64_proxy_run_def readAsDataURL_def resolve_def
      base64data_def or_empty_def dataURL_def dataURL_header_def at_index_def
      b64_digit_def b64_alphabet_def getProp_def jsonField_def truthy_def pdbId_ui_def fetches_def)

subsection \<open>C3: a failing export is contained\<close>

text \<open>
  C3. In every version, when an exporter rejects (\<^verbatim>\<open>exportGeometry\<close>; in the proxy
  versions the GLB exporter, or the USDZ exporter after the GLB was exported and read),
  the handler sends no request, writes the cause with \<^verbatim>\<open>console.error\<close>, shows its
  one generic failure notice, and leaves the busy flag false.
\<close>

theorem export_failure_contained:
  "(exportGeometry env = Rejected e \<longrightarrow>
      contained st e ''Export to AR failed.'' (exportToAR_ui env)
      \<and> contained st e ''Export failed. Check console for details.'' (exportToAR_token env)
      \<and> contained st e ''Export to AR failed.'' (exportToAR_multipart env))
   \<and> (structures env \<noteq> [] \<and> glbExport env = Rejected e \<longrightarrow>
      contained st e ''Export failed. Check console for details.'' (exportToAR_proxy env)
      \<and> contained st e ''Export failed. Check console for details.'' (exportToAR_proxy2 env))
   \<and> (structures env \<noteq> [] \<and> glbExport env = Fulfilled b \<and> readStatus env 0 = ReadOk
        \<and> usdzExport env = Rejected e \<longrightarrow>
      contained st e ''Export failed. Check console for details.'' (exportToAR_proxy env)
      \<and> contained st e ''Export failed. Check console for details.'' (exportToAR_proxy2 env))"
proof (intro conjI impI)
  assume ex: "exportGeometry env = Rejected e"
  show "contained st e ''Export to AR failed.'' (exportToAR_ui env)"
    by (simp add: contained_def exportToAR_ui_def run_simps ex fetches_def logged_def alerts_def
        setState_def)
  show "contained st e ''Export failed. Check console for details.'' (exportToAR_token env)"
    by (simp add: contained_def exportToAR_token_def run_simps ex fetches_def logged_def alerts_def
        setState_def)
  show "contained st e ''Export to AR failed.'' (exportToAR_multipart env)"
    by (simp add: contained_def exportToAR_multipart_def run_simps ex fetches_def logged_def
        alerts_def setState_def)
next
  assume h: "structures env \<noteq> [] \<and> glbExport env = Rejected e"
  then obtain s rest where ss: "structures env = s # rest" by (cases "structures env") auto
  from h have pipe: "fst (proxy_pipeline env p) = Throw e
      \<and> snd (proxy_pipeline env p) = [ConsoleLog ''Generating GLB model...'', GlbExport]" for p
    by (simp add: proxy_pipeline_def run_simps)
  show "contained st e ''Export failed. Check console for details.'' (exportToAR_proxy env)"
    by (simp add: contained_def exportToAR_proxy_def run_simps ss pipe fetches_def logged_def
        alerts_def setState_def)
  show "contained st e ''Export failed. Check console for details.'' (exportToAR_proxy2 env)"
    by (simp add: contained_def exportToAR_proxy2_def run_simps ss pipe fetches_def logged_def
        alerts_def setState_def)
next
  assume h: "structures env \<noteq> [] \<and> glbExport env = Fulfilled b \<and> readStatus env 0 = ReadOk
        \<and> usdzExport env = Rejected e"
  then obtain s rest where ss: "structures env = s # rest" by (cases "structures env") auto
  have rd: "\<exists>g. blobToBase64_proxy ReadOk b = Fulfilled g"
    by (simp add: blobToBase64_proxy_def blobToBase64_proxy_run_def readAsDataURL_def resolve_def)
  from h rd have pipe: "fst (proxy_pipeline env p) = Throw e
      \<and> snd (proxy_pipeline env p) =
          [ConsoleLog ''Generating GLB model...'', GlbExport, ReadBlob b,
           ConsoleLog ''Generating USDZ model...'', UsdzExport]" for p
    by (auto simp: proxy_pipeline_def run_simps)
  show "contained st e ''Export failed. Check console for details.'' (exportToAR_proxy env)"
    by (simp add: contained_def exportToAR_proxy_def run_simps ss pipe fetches_def logged_def
        alerts_def setState_def)
  show "contained st e ''Export failed. Check console for details.'' (exportToAR_proxy2 env)"
    by (simp add: contained_def exportToAR_proxy2_def run_simps ss pipe fetches_def logged_def
        alerts_def setState_def)
qed


theorem export_failure_contained_witness:
  "exportGeometry (env_sample\<lparr>exportGeometry := Rejected (HostError ''no geometry'')\<rparr>)
     = Rejected (HostError ''no geometry'')
   \<and> contained defaultState (HostError ''no geometry'') ''Export to AR failed.''
       (exportToAR_ui (env_sample\<lparr>exportGeometry := Rejected (HostError ''no geometry'')\<rparr>))
   \<and> structures (env_sample\<lparr>glbExport := Rejected (HostError ''no glb'')\<rparr>) \<noteq> []
   \<and> contained defaultState (HostError ''no glb'') ''Export failed. Check console for details.''
       (exportToAR_proxy (env_sample\<lparr>glbExport := Rejected (HostError ''no glb'')\<rparr>))
   \<and> readStatus (env_sample\<lparr>usdzExport := Rejected (HostError ''no usdz'')\<rparr>) 0 = ReadOk
   \<and> contained defaultState (HostError ''no usdz'') ''Export failed. Check console for details.''
       (exportToAR_proxy (env_sample\<lparr>usdzExport := Rejected (HostError ''no usdz'')\<rparr>))"
  using export_failure_contained
          [of "env_sample\<lparr>exportGeometry := Rejected (HostError ''no geometry'')\<rparr>"
              "HostError ''no geometry''" defaultState glb_sample]
        export_failure_contained
          [of "env_sample\<lparr>glbExport := Rejected (HostError ''no glb'')\<rparr>"
              "HostError ''no glb''" defaultState glb_sample]
        export_failure_contained
          [of "env_sample\<lparr>usdzExport := Rejected (HostError ''no usdz'')\<rparr>"
              "HostError ''no usdz''" defaultState glb_sample]
  by (simp add: env_sample_def)

subsection \<open>C9: one blob under two names\<close>



subsection \<open>The requests of a block\<close>
























subsection \<open>C4: an upload answered without success\<close>



























subsection \<open>C1: the busy gate\<close>

lemma clickable_enabled:
  assumes "render = renderControls_ui \<or> render = renderControls_proxy"
    and "clickable (render st ctx) b"
  shows "\<not> triggerDisabled st ctx"
  using assms
  by (auto simp: clickable_def renderControls_ui_def renderControls_proxy_def split: if_splits)

lemma busy_disabled: "busy st = Some True \<Longrightarrow> triggerDisabled st ctx"
  by (simp add: triggerDisabled_def)

lemma step_gate_inv:
  assumes r: "render = renderControls_ui \<or> render = renderControls_proxy"
    and inv: "gate_inv c"
  shows "gate_inv (step render c a)"
proof (cases a)
  case (Click b ctx)
  show ?thesis
  proof (cases "clickable (render (ui c) ctx) b")
    case True
    from clickable_enabled [OF r True] busy_disabled have "busy (ui c) \<noteq> Some True" by blast
    with inv have "inflight c = []" by (simp add: gate_inv_def)
    with True Click show ?thesis by (simp add: gate_inv_def setState_def)
  next
    case False
    with Click inv show ?thesis by simp
  qed
next
  case (Finish k)
  show ?thesis
  proof (cases "k < length (inflight c)")
    case True
    with inv have "length (inflight c) = 1" "k = 0"
      by (auto simp: gate_inv_def split: if_splits)
    with True Finish show ?thesis by (simp add: gate_inv_def setState_def)
  next
    case False
    with Finish inv show ?thesis by simp
  qed
qed

lemma run_gate_inv:
  assumes r: "render = renderControls_ui \<or> render = renderControls_proxy"
    and inv: "gate_inv c"
  shows "gate_inv (run_actions render c acts)"
  using inv unfolding run_actions_def
  by (induction acts arbitrary: c) (simp_all add: step_gate_inv [OF r])

subsection \<open>Blocks that leave the busy flag alone\<close>

lemma setStates_append: "setStates (a @ b) = setStates a @ setStates b"
  by (simp add: setStates_def)

lemma setStates_single:
  "setStates [] = []" "setStates [SetState b] = [b]"
  "setStates [ExportGeometry] = []" "setStates [GlbExport] = []" "setStates [UsdzExport] = []"
  "setStates [ReadBlob bl] = []" "setStates [ConsoleLog m] = []" "setStates [ConsoleError e] = []"
  "setStates [Alert m] = []" "setStates [Fetch req] = []" "setStates [QRCodeToDataURL v] = []"
  "setStates [AppendPopup l q] = []" "setStates [WindowOpen l] = []" "setStates [Download bl n] = []"
  "setStates [CreateObjectURL bl u] = []" "setStates [SetTimeout k d] = []"
  by (simp_all add: setStates_def)

lemma setStates_SetState: "setStates (SetState b # t) = b # setStates t"
  by (simp add: setStates_def)

lemma quiet_emit: "setStates [ev] = [] \<Longrightarrow> setStates (snd (emit ev)) = []"
  by (simp add: emit_parts)

lemma quiet_call: "setStates [ev] = [] \<Longrightarrow> setStates (snd (call ev p)) = []"
  by (simp add: call_parts)

lemma quiet_leaf:
  "setStates (snd (await p)) = []" "setStates (snd (throw e)) = []" "setStates (snd (ret a)) = []"
  "setStates (snd (getProp v k)) = []" "setStates (snd (first100 w)) = []"
  "setStates (snd (showPopup l q)) = []"
  by (cases v; cases w;
      simp add: await_parts throw_parts ret_parts emit_parts getProp_def first100_def showPopup_def
        setStates_def)+

lemma quiet_andThen:
  assumes "setStates (snd m) = []" "\<And>a. setStates (snd (f a)) = []"
  shows "setStates (snd (andThen m f)) = []"
  using assms by (cases "fst m") (simp_all add: snd_andThen setStates_append)

lemma quiet_if:
  assumes "setStates (snd a) = []" "setStates (snd b) = []"
  shows "setStates (snd (if c then a else b)) = []"
  using assms by simp

lemma quiet_list_case:
  assumes "setStates (snd a) = []" "\<And>x rest. setStates (snd (b x rest)) = []"
  shows "setStates (snd (case xs of [] \<Rightarrow> a | x # rest \<Rightarrow> b x rest)) = []"
  using assms by (cases xs) simp_all

lemmas quiet_steps = quiet_andThen quiet_emit quiet_call quiet_leaf quiet_if quiet_list_case

lemma quiet_proxy_pipeline: "setStates (snd (proxy_pipeline env p)) = []"
  unfolding proxy_pipeline_def
  by (intro quiet_steps; simp add: setStates_single)

lemma brackets_try:
  assumes "\<And>u. setStates (snd (f u)) = []"
    and "\<And>e. setStates (snd (handler e)) = []" "\<And>e. fst (handler e) = Val ()"
  shows "brackets (try_catch_finally (andThen (emit (SetState True)) f) handler (emit (SetState False)))"
  using assms
  by (cases "fst (f ())")
     (simp_all add: brackets_def run_simps setStates_append setStates_single setStates_SetState)

lemma handlers_bracket:
  "brackets (exportToAR_ui env)" "brackets (exportToAR_proxy env)" "brackets (exportToAR_proxy2 env)"
  "brackets (exportToAR_token env)" "brackets (exportToAR_multipart env)"
  "brackets (save env)" "brackets (viewInAR env)"
  unfolding exportToAR_ui_def exportToAR_proxy_def exportToAR_proxy2_def exportToAR_token_def
    exportToAR_multipart_def save_def viewInAR_def Let_def
  by (rule brackets_try; (intro quiet_steps quiet_proxy_pipeline)?;
      simp add: setStates_single run_simps)+

text \<open>
  C1. Every handler brackets its work with the busy flag. From the initial state, after
  any sequence of clicks and handler completions, at most one handler is in flight and
  the flag is true exactly then; and while the flag is true every trigger is disabled, so
  a click on any button changes nothing: it starts no handler and queues nothing.
\<close>

theorem busy_gate_exclusive:
  "render = renderControls_ui \<or> render = renderControls_proxy \<Longrightarrow>
   c = run_actions render initial acts \<Longrightarrow>
     length (inflight c) \<le> 1
     \<and> (busy (ui c) = Some True \<longleftrightarrow> inflight c \<noteq> [])
     \<and> (busy (ui c) = Some True \<longrightarrow>
          step render c (Click b ctx) = c
          \<and> \<not> clickable (render (ui c) ctx) b
          \<and> paramsDisabled (render (ui c) ctx))
     \<and> brackets (exportToAR_ui env) \<and> brackets (exportToAR_proxy env)
     \<and> brackets (exportToAR_proxy2 env) \<and> brackets (exportToAR_token env)
     \<and> brackets (exportToAR_multipart env) \<and> brackets (save env) \<and> brackets (viewInAR env)"
proof -
  assume r: "render = renderControls_ui \<or> render = renderControls_proxy"
    and c: "c = run_actions render initial acts"
  have "gate_inv initial" by (simp add: gate_inv_def initial_def defaultState_def)
  from run_gate_inv [OF r this] c have inv: "gate_inv c" by simp
  then have len: "length (inflight c) \<le> 1" and iff: "busy (ui c) = Some True \<longleftrightarrow> inflight c \<noteq> []"
    by (auto simp: gate_inv_def split: if_splits)
  have gate: "busy (ui c) = Some True \<longrightarrow>
          step render c (Click b ctx) = c
          \<and> \<not> clickable (render (ui c) ctx) b
          \<and> paramsDisabled (render (ui c) ctx)"
  proof
    assume busy: "busy (ui c) = Some True"
    from clickable_enabled [OF r] busy_disabled [OF busy]
    have no: "\<not> clickable (render (ui c) ctx) b" by blast
    from r busy have "paramsDisabled (render (ui c) ctx)"
      by (auto simp: renderControls_ui_def renderControls_proxy_def)
    with no show "step render c (Click b ctx) = c
          \<and> \<not> clickable (render (ui c) ctx) b
          \<and> paramsDisabled (render (ui c) ctx)" by simp
  qed
  from len iff gate handlers_bracket [of env] show ?thesis by blast
qed

theorem busy_gate_exclusive_witness:
  "busy (ui (run_actions renderControls_proxy initial
       [Click ExportToARButton \<lparr>reprCount = Some 1, isARSupported = True, format = ''usdz''\<rparr>]))
     = Some True
   \<and> inflight (run_actions renderControls_proxy initial
       [Click ExportToARButton \<lparr>reprCount = Some 1, isARSupported = True, format = ''usdz''\<rparr>])
     = [ExportToARButton]
   \<and> run_actions renderControls_proxy initial
       [Click ExportToARButton \<lparr>reprCount = Some 1, isARSupported = True, format = ''usdz''\<rparr>,
        Click ExportToARButton \<lparr>reprCount = Some 1, isARSupported = True, format = ''usdz''\<rparr>]
     = run_actions renderControls_proxy initial
       [Click ExportToARButton \<lparr>reprCount = Some 1, isARSupported = True, format = ''usdz''\<rparr>]"
proof -
  have b: "busy (ui (run_actions renderControls_proxy initial
       [Click ExportToARButton \<lparr>reprCount = Some 1, isARSupported = True, format = ''usdz''\<rparr>]))
     = Some True"
    and i: "inflight (run_actions renderControls_proxy initial
       [Click ExportToARButton \<lparr>reprCount = Some 1, isARSupported = True, format = ''usdz''\<rparr>])
     = [ExportToARButton]"
    by (simp_all add: run_actions_def initial_def defaultState_def clickable_def
        renderControls_proxy_def triggerDisabled_def setState_def)
  from busy_gate_exclusive
    [of renderControls_proxy
        "run_actions renderControls_proxy initial
          [Click ExportToARButton \<lparr>reprCount = Some 1, isARSupported = True, format = ''usdz''\<rparr>]"
        "[Click ExportToARButton \<lparr>reprCount = Some 1, isARSupported = True, format = ''usdz''\<rparr>]"
        ExportToARButton "\<lparr>reprCount = Some 1, isARSupported = True, format = ''usdz''\<rparr>"
        env_sample] b
  have "step renderControls_proxy
          (run_actions renderControls_proxy initial
            [Click ExportToARButton \<lparr>reprCount = Some 1, isARSupported = True, format = ''usdz''\<rparr>])
          (Click ExportToARButton \<lparr>reprCount = Some 1, isARSupported = True, format = ''usdz''\<rparr>)
        = run_actions renderControls_proxy initial
            [Click ExportToARButton \<lparr>reprCount = Some 1, isARSupported = True, format = ''usdz''\<rparr>]"
    by blast
  then have "run_actions renderControls_proxy initial
       [Click ExportToARButton \<lparr>reprCount = Some 1, isARSupported = True, format = ''usdz''\<rparr>,
        Click ExportToARButton \<lparr>reprCount = Some 1, isARSupported = True, format = ''usdz''\<rparr>]
     = run_actions renderControls_proxy initial
       [Click ExportToARButton \<lparr>reprCount = Some 1, isARSupported = True, format = ''usdz''\<rparr>]"
    by (simp add: run_actions_def)
  with b i show ?thesis by blast
qed


end
